theory Spec2Isabelle
  imports Complex_Main
begin

section \<open>OmniSync framework: alignment, guidance weighting, region extraction, frame loop\<close>

text \<open>
  A shallow embedding of \<^verbatim>\<open>src/Python/omnisync_framework.py\<close>. The embedded
  functions keep the names of the Python methods. Python floats are modelled by the
  real numbers: every float expression of the source that is turned into an index
  (\<^verbatim>\<open>int(h * 0.67)\<close>, \<^verbatim>\<open>int(i * n / target_frames)\<close>) is at a distance from
  the next integer that is far larger than the rounding error of one double
  multiplication or division for all sizes below \<open>2^53\<close>, so the truncation of the
  exact value is the truncation the interpreter computes. The bounds on the guidance
  weight are proved over the reals; they carry over to doubles, as rounding is monotone
  and the bounds \<open>0\<close>, \<open>1\<close> and the base strength are themselves doubles. The
  calls into OpenCV and PyTorch are parameters of the model.
\<close>

subsection \<open>Errors and numeric helpers\<close>

text \<open>
  \<open>ZeroDivisionError\<close> and \<open>IndexError\<close> are the Python exceptions the source can
  raise by itself; \<open>ExternalError\<close> stands for an exception raised inside a library
  call. \<open>InvalidArgument\<close> and \<open>AlignmentError\<close> are the names used by the
  specification; the source defines no exception class and no definition below
  returns them.
\<close>

datatype error =
    ZeroDivisionError
  | IndexError
  | ExternalError string
  | InvalidArgument
  | AlignmentError

text \<open>Python's \<^verbatim>\<open>int(x)\<close> on a float: truncation towards zero.\<close>

definition py_int :: "real \<Rightarrow> int" where
  "py_int x = (if 0 \<le> x then \<lfloor>x\<rfloor> else \<lceil>x\<rceil>)"

text \<open>Python's true division \<^verbatim>\<open>a / b\<close> on numbers.\<close>

definition py_truediv :: "real \<Rightarrow> real \<Rightarrow> error + real" where
  "py_truediv a b = (if b = 0 then Inl ZeroDivisionError else Inr (a / b))"

subsection \<open>DynamicGuidanceSystem\<close>

text \<open>
  \<^verbatim>\<open>temporal_weight = 1.0 - abs(frame_idx / total_frames - 0.5) * 0.3\<close>
\<close>

definition temporal_weight :: "int \<Rightarrow> int \<Rightarrow> error + real" where
  "temporal_weight frame_idx total_frames =
     (case py_truediv (of_int frame_idx) (of_int total_frames) of
        Inl e \<Rightarrow> Inl e
      | Inr q \<Rightarrow> Inr (1.0 - \<bar>q - 0.5\<bar> * 0.3))"

text \<open>\<^verbatim>\<open>audio_weight = min(audio_power * 2.0, 1.0)\<close>\<close>

definition audio_weight :: "real \<Rightarrow> real" where
  "audio_weight audio_power = min (audio_power * 2.0) 1.0"

text \<open>
  \<^verbatim>\<open>compute_guidance_strength(self, audio_power, frame_idx, total_frames)\<close>, with
  \<^verbatim>\<open>self.base_strength\<close> as the first argument.
\<close>

definition compute_guidance_strength :: "real \<Rightarrow> real \<Rightarrow> int \<Rightarrow> int \<Rightarrow> error + real" where
  "compute_guidance_strength base_strength audio_power frame_idx total_frames =
     (case temporal_weight frame_idx total_frames of
        Inl e \<Rightarrow> Inl e
      | Inr tw \<Rightarrow> Inr (base_strength * tw * audio_weight audio_power))"

subsection \<open>Audio features and alignment\<close>

text \<open>
  A two-dimensional numpy array of floats (the mel spectrogram, bands by audio frames):
  its shape and its entries. The dictionary returned by \<^verbatim>\<open>extract_audio_features\<close>
  always has the keys read here, so it is a record of the two entries that
  \<^verbatim>\<open>align_audio_video\<close> reads.
\<close>

record matrix =
  shape0 :: nat
  shape1 :: nat
  entry :: "nat \<Rightarrow> nat \<Rightarrow> real"

record audio_features =
  mel_spectrogram :: matrix
  audio_length :: real

text \<open>
  \<^verbatim>\<open>mel_spec[:, j]\<close> for an integer \<open>j\<close>: a negative index counts from the end, an
  index outside \<open>[-shape1, shape1)\<close> raises \<open>IndexError\<close>.
\<close>

definition column :: "matrix \<Rightarrow> int \<Rightarrow> error + real list" where
  "column m j =
     (let n = int (shape1 m); k = (if j < 0 then j + n else j)
      in if 0 \<le> k \<and> k < n then Inr (map (\<lambda>b. entry m b (nat k)) [0..<shape0 m])
         else Inl IndexError)"

text \<open>
  The two lines of the loop body that select the source column:
  \<^verbatim>\<open>audio_idx = int(i * mel_spec.shape[1] / target_frames)\<close> and
  \<^verbatim>\<open>audio_idx = min(audio_idx, mel_spec.shape[1] - 1)\<close>.
\<close>

definition audio_idx :: "matrix \<Rightarrow> nat \<Rightarrow> nat \<Rightarrow> error + int" where
  "audio_idx mel_spec target_frames i =
     (case py_truediv (real (i * shape1 mel_spec)) (real target_frames) of
        Inl e \<Rightarrow> Inl e
      | Inr q \<Rightarrow> Inr (min (py_int q) (int (shape1 mel_spec) - 1)))"

text \<open>
  The loop \<^verbatim>\<open>for i in range(target_frames)\<close>, over the indices still to do;
  \<^verbatim>\<open>aligned_audio[i] = mel_spec[:, audio_idx]\<close> writes row \<open>i\<close>.
\<close>

fun align_loop :: "matrix \<Rightarrow> nat \<Rightarrow> nat list \<Rightarrow> real list list \<Rightarrow> error + real list list" where
  "align_loop mel_spec target_frames [] aligned_audio = Inr aligned_audio"
| "align_loop mel_spec target_frames (i # rest) aligned_audio =
     (case audio_idx mel_spec target_frames i of
        Inl e \<Rightarrow> Inl e
      | Inr j \<Rightarrow>
          (case column mel_spec j of
             Inl e \<Rightarrow> Inl e
           | Inr v \<Rightarrow>
               if i < length aligned_audio
               then align_loop mel_spec target_frames rest (aligned_audio[i := v])
               else Inl IndexError))"

text \<open>
  \<^verbatim>\<open>align_audio_video(self, audio_features, video_frames)\<close>. The frame rate
  \<^verbatim>\<open>video_fps = len(video_frames) / audio_length\<close> is computed first and not used
  afterwards; \<^verbatim>\<open>aligned_audio\<close> starts as \<^verbatim>\<open>np.zeros((target_frames, bands))\<close>.
\<close>

definition align_audio_video ::
  "audio_features \<Rightarrow> 'f list \<Rightarrow> error + (real list list \<times> 'f list)" where
  "align_audio_video features video_frames =
     (case py_truediv (real (length video_frames)) (audio_length features) of
        Inl e \<Rightarrow> Inl e
      | Inr video_fps \<Rightarrow>
          (let mel_spec = mel_spectrogram features;
               target_frames = length video_frames;
               aligned_audio = replicate target_frames (replicate (shape0 mel_spec) 0)
           in case align_loop mel_spec target_frames [0..<target_frames] aligned_audio of
                Inl e \<Rightarrow> Inl e
              | Inr aligned \<Rightarrow> Inr (aligned, video_frames)))"

text \<open>
  The index the specification gives for entry \<open>i\<close> of the aligned track:
  \<open>clamp(floor(i * audioFrameCount / targetFrameCount), 0, audioFrameCount - 1)\<close>.
\<close>

definition spec_source_index :: "nat \<Rightarrow> nat \<Rightarrow> nat \<Rightarrow> int" where
  "spec_source_index audioFrameCount targetFrameCount i =
     max 0 (min \<lfloor>real i * real audioFrameCount / real targetFrameCount\<rfloor>
                (int audioFrameCount - 1))"

subsection \<open>FaceDetector.extract_lip_region\<close>

text \<open>
  A frame is a numpy array of pixels: its first two dimensions and the pixel at each
  position. The type of a pixel (the channel values) is left open. A bounding box is the
  tuple \<open>(x, y, w, h)\<close> of integers.
\<close>

record 'p image =
  img_rows :: nat
  img_cols :: nat
  img_at :: "nat \<Rightarrow> nat \<Rightarrow> 'p"

type_synonym bbox = "int \<times> int \<times> int \<times> int"

text \<open>
  A bound of the slice \<^verbatim>\<open>a:b\<close> on an axis of length \<open>n\<close>: a negative bound counts
  from the end, and every bound is clipped to \<open>[0, n]\<close>; slicing never raises.
\<close>

definition slice_bound :: "nat \<Rightarrow> int \<Rightarrow> nat" where
  "slice_bound n i = (if i < 0 then nat (max (i + int n) 0) else nat (min i (int n)))"

text \<open>\<^verbatim>\<open>frame[r0:r1, c0:c1]\<close>\<close>

definition slice2 :: "'p image \<Rightarrow> int \<Rightarrow> int \<Rightarrow> int \<Rightarrow> int \<Rightarrow> 'p image" where
  "slice2 frame r0 r1 c0 c1 =
     (let rs = slice_bound (img_rows frame) r0; re = slice_bound (img_rows frame) r1;
          cs = slice_bound (img_cols frame) c0; ce = slice_bound (img_cols frame) c1
      in \<lparr>img_rows = re - rs, img_cols = ce - cs,
          img_at = (\<lambda>r c. img_at frame (rs + r) (cs + c))\<rparr>)"

text \<open>\<^verbatim>\<open>extract_lip_region(self, frame, face_bbox)\<close>\<close>

fun extract_lip_region :: "'p image \<Rightarrow> bbox \<Rightarrow> 'p image" where
  "extract_lip_region frame (x, y, w, h) =
     (let lip_y = y + py_int (of_int h * 0.67);
          lip_h = py_int (of_int h * 0.33);
          lip_x = x + py_int (of_int w * 0.2);
          lip_w = py_int (of_int w * 0.6)
      in slice2 frame lip_y (lip_y + lip_h) lip_x (lip_x + lip_w))"

text \<open>
  The region as the specification words it, \<open>frame[y+0.67h : y+h, x+0.2w : x+0.8w]\<close>,
  with the fractional bounds truncated to indices as the source truncates them.
\<close>

fun spec_extractRegion :: "'p image \<Rightarrow> bbox \<Rightarrow> 'p image" where
  "spec_extractRegion frame (x, y, w, h) =
     slice2 frame (y + py_int (of_int h * 0.67)) (y + h)
                  (x + py_int (of_int w * 0.2)) (x + py_int (of_int w * 0.8))"

subsection \<open>OmniSyncFramework: the frame loop and the video writer\<close>

text \<open>
  The library calls are parameters. Each may raise, so each returns an error or a value:
  the face detector (\<^verbatim>\<open>detect_face\<close>, a value \<open>None\<close> when no face is found),
  \<^verbatim>\<open>cv2.resize\<close>, the conversion of the resized region to the tensor
  \<^verbatim>\<open>visual_input\<close>, the network (\<^verbatim>\<open>self.model(audio_input, visual_input)\<close>),
  and the calls on \<^verbatim>\<open>cv2.VideoWriter\<close>.
\<close>

record ('p, 'v, 't) capabilities =
  detect_face :: "'p image \<Rightarrow> error + bbox option"
  cv2_resize :: "'p image \<Rightarrow> nat \<times> nat \<Rightarrow> error + 'p image"
  to_visual_input :: "'p image \<Rightarrow> error + 'v"
  model_forward :: "real list \<Rightarrow> 'v \<Rightarrow> error + 't"
  writer_open :: "string \<Rightarrow> string \<Rightarrow> int \<Rightarrow> nat \<times> nat \<Rightarrow> error + unit"
  writer_write :: "'p image \<Rightarrow> error + unit"
  writer_release :: "error + unit"

text \<open>The calls the modelled code makes into OpenCV, in the order it makes them.\<close>

datatype 'p cv2_call =
    Resize "'p image" "nat \<times> nat"
  | VideoWriter string string int "nat \<times> nat"
  | VideoWriter_write "'p image"
  | VideoWriter_release

text \<open>\<^verbatim>\<open>aligned_audio[i]\<close> for an index \<open>i \<ge> 0\<close>.\<close>

definition aligned_row :: "real list list \<Rightarrow> nat \<Rightarrow> error + real list" where
  "aligned_row aligned_audio i =
     (if i < length aligned_audio then Inr (aligned_audio ! i) else Inl IndexError)"

text \<open>\<^verbatim>\<open>audio_power = np.mean(aligned_audio[i] ** 2)\<close>\<close>

definition np_mean_square :: "real list \<Rightarrow> real" where
  "np_mean_square v = sum_list (map (\<lambda>a. a ^ 2) v) / real (length v)"

text \<open>
  The loop \<^verbatim>\<open>for i, frame in enumerate(aligned_frames)\<close> of
  \<^verbatim>\<open>generate_lip_sync\<close>: the frames still to do with the index of the first,
  \<^verbatim>\<open>output_frames\<close> so far, and the calls made so far. \<open>n_frames\<close> is
  \<^verbatim>\<open>len(aligned_frames)\<close>; the guidance system is the default one, of base
  strength \<open>0.7\<close>.
\<close>

fun lip_sync_loop ::
  "('p, 'v, 't) capabilities \<Rightarrow> real list list \<Rightarrow> nat \<Rightarrow> nat \<Rightarrow> 'p image list
     \<Rightarrow> 'p image list \<Rightarrow> 'p cv2_call list \<Rightarrow> (error + 'p image list) \<times> 'p cv2_call list" where
  "lip_sync_loop caps aligned_audio n_frames i [] output_frames calls = (Inr output_frames, calls)"
| "lip_sync_loop caps aligned_audio n_frames i (frame # rest) output_frames calls =
     (case detect_face caps frame of
        Inl e \<Rightarrow> (Inl e, calls)
      | Inr None \<Rightarrow>
          lip_sync_loop caps aligned_audio n_frames (i + 1) rest (output_frames @ [frame]) calls
      | Inr (Some face_bbox) \<Rightarrow>
          (let lip_region = extract_lip_region frame face_bbox in
           case aligned_row aligned_audio i of
             Inl e \<Rightarrow> (Inl e, calls)
           | Inr audio_input \<Rightarrow>
               (let calls' = calls @ [Resize lip_region (64, 64)] in
                case cv2_resize caps lip_region (64, 64) of
                  Inl e \<Rightarrow> (Inl e, calls')
                | Inr lip_resized \<Rightarrow>
                    (case to_visual_input caps lip_resized of
                       Inl e \<Rightarrow> (Inl e, calls')
                     | Inr visual_input \<Rightarrow>
                         (case compute_guidance_strength 0.7 (np_mean_square audio_input)
                                 (int i) (int n_frames) of
                            Inl e \<Rightarrow> (Inl e, calls')
                          | Inr guidance_strength \<Rightarrow>
                              (case model_forward caps audio_input visual_input of
                                 Inl e \<Rightarrow> (Inl e, calls')
                               | Inr output_features \<Rightarrow>
                                   lip_sync_loop caps aligned_audio n_frames (i + 1) rest
                                     (output_frames @ [frame]) calls'))))))"

definition generate_frames ::
  "('p, 'v, 't) capabilities \<Rightarrow> real list list \<Rightarrow> 'p image list
     \<Rightarrow> (error + 'p image list) \<times> 'p cv2_call list" where
  "generate_frames caps aligned_audio aligned_frames =
     lip_sync_loop caps aligned_audio (length aligned_frames) 0 aligned_frames [] []"

text \<open>
  All the calls outside the source made for one frame return: the detector returns, and
  when it returns a box, the row of the aligned track exists and the resize, the
  conversion to a tensor and the network return.
\<close>

definition external_calls_return ::
  "('p, 'v, 't) capabilities \<Rightarrow> real list list \<Rightarrow> nat \<Rightarrow> 'p image \<Rightarrow> bool" where
  "external_calls_return caps aligned_audio i frame =
     (case detect_face caps frame of
        Inl e \<Rightarrow> False
      | Inr None \<Rightarrow> True
      | Inr (Some face_bbox) \<Rightarrow>
          i < length aligned_audio \<and>
          (case cv2_resize caps (extract_lip_region frame face_bbox) (64, 64) of
             Inl e \<Rightarrow> False
           | Inr lip_resized \<Rightarrow>
               (case to_visual_input caps lip_resized of
                  Inl e \<Rightarrow> False
                | Inr visual_input \<Rightarrow>
                    (case model_forward caps (aligned_audio ! i) visual_input of
                       Inl e \<Rightarrow> False
                     | Inr output_features \<Rightarrow> True))))"

text \<open>The loop \<^verbatim>\<open>for frame in frames: out.write(frame)\<close> of \<^verbatim>\<open>save_video\<close>.\<close>

fun write_frames ::
  "('p, 'v, 't) capabilities \<Rightarrow> 'p image list \<Rightarrow> 'p cv2_call list
     \<Rightarrow> (error + unit) \<times> 'p cv2_call list" where
  "write_frames caps [] calls = (Inr (), calls)"
| "write_frames caps (frame # rest) calls =
     (case writer_write caps frame of
        Inl e \<Rightarrow> (Inl e, calls @ [VideoWriter_write frame])
      | Inr u \<Rightarrow> write_frames caps rest (calls @ [VideoWriter_write frame]))"

text \<open>
  \<^verbatim>\<open>save_video(self, frames, output_path, fps)\<close>: it returns at once on an empty
  list; otherwise it takes the size from the first frame, opens the writer with the
  codec \<^verbatim>\<open>mp4v\<close>, writes every frame and releases the writer.
\<close>

definition save_video ::
  "('p, 'v, 't) capabilities \<Rightarrow> 'p image list \<Rightarrow> string \<Rightarrow> int \<Rightarrow> 'p cv2_call list
     \<Rightarrow> (error + unit) \<times> 'p cv2_call list" where
  "save_video caps frames output_path fps calls =
     (case frames of
        [] \<Rightarrow> (Inr (), calls)
      | first # others \<Rightarrow>
          (let height = img_rows first; width = img_cols first;
               calls1 = calls @ [VideoWriter output_path ''mp4v'' fps (width, height)]
           in case writer_open caps output_path ''mp4v'' fps (width, height) of
                Inl e \<Rightarrow> (Inl e, calls1)
              | Inr u \<Rightarrow>
                  (case write_frames caps frames calls1 of
                     (Inl e, calls2) \<Rightarrow> (Inl e, calls2)
                   | (Inr u', calls2) \<Rightarrow>
                       (case writer_release caps of
                          Inl e \<Rightarrow> (Inl e, calls2 @ [VideoWriter_release])
                        | Inr u'' \<Rightarrow> (Inr (), calls2 @ [VideoWriter_release])))))"

subsection \<open>Concrete inputs\<close>

definition example_mel :: matrix where
  "example_mel = \<lparr>shape0 = 2, shape1 = 2, entry = (\<lambda>b j. real (10 * b + j))\<rparr>"

definition example_features :: audio_features where
  "example_features = \<lparr>mel_spectrogram = example_mel, audio_length = 4\<rparr>"

definition silent_features :: audio_features where
  "silent_features = \<lparr>mel_spectrogram = example_mel, audio_length = 0\<rparr>"

definition empty_mel_features :: audio_features where
  "empty_mel_features =
     \<lparr>mel_spectrogram = \<lparr>shape0 = 2, shape1 = 0, entry = (\<lambda>b j. 0)\<rparr>, audio_length = 4\<rparr>"

text \<open>A frame of 20 by 20 pixels, each pixel holding its own position.\<close>

definition example_frame :: "(nat \<times> nat) image" where
  "example_frame = \<lparr>img_rows = 20, img_cols = 20, img_at = (\<lambda>r c. (r, c))\<rparr>"

definition blank_frame :: "(nat \<times> nat) image" where
  "blank_frame = \<lparr>img_rows = 20, img_cols = 20, img_at = (\<lambda>r c. (0, 0))\<rparr>"

text \<open>
  Library stand-ins for the examples: a detector that finds the box \<open>(0, 0, 10, 3)\<close> in
  \<open>example_frame\<close> and no face elsewhere, a resize that rejects an image without pixels
  as OpenCV does, a network that returns.
\<close>

definition example_caps :: "(nat \<times> nat, (nat \<times> nat) image, unit) capabilities" where
  "example_caps =
     \<lparr>detect_face = (\<lambda>frame. if img_at frame 1 1 = (1, 1) then Inr (Some (0, 0, 10, 3)) else Inr None),
      cv2_resize = (\<lambda>img size. if img_rows img = 0 \<or> img_cols img = 0
                                then Inl (ExternalError ''resize'')
                                else Inr \<lparr>img_rows = fst size, img_cols = snd size, img_at = img_at img\<rparr>),
      to_visual_input = (\<lambda>lip_resized. Inr lip_resized),
      model_forward = (\<lambda>audio_input visual_input. Inr ()),
      writer_open = (\<lambda>path fourcc fps size. Inr ()),
      writer_write = (\<lambda>frame. Inr ()),
      writer_release = Inr ()\<rparr>"

text \<open>The same, with a detector that finds the box \<open>(2, 2, 10, 10)\<close>.\<close>

definition wide_box_caps :: "(nat \<times> nat, (nat \<times> nat) image, unit) capabilities" where
  "wide_box_caps =
     example_caps\<lparr>detect_face :=
       (\<lambda>frame. if img_at frame 1 1 = (1, 1) then Inr (Some (2, 2, 10, 10)) else Inr None)\<rparr>"

section \<open>Properties\<close>

subsection \<open>Guidance weight\<close>

lemma temporal_weight_value:
  assumes "total_frames \<noteq> 0"
  shows "temporal_weight frame_idx total_frames =
           Inr (1 - \<bar>of_int frame_idx / of_int total_frames - 1 / 2\<bar> * (3 / 10))"
  using assms by (simp add: temporal_weight_def py_truediv_def)

lemma temporal_weight_range:
  assumes "0 \<le> frame_idx" "frame_idx \<le> total_frames" "1 \<le> total_frames"
  shows "\<exists>tw. temporal_weight frame_idx total_frames = Inr tw \<and> 85 / 100 \<le> tw \<and> tw \<le> 1"
proof -
  let ?q = "(of_int frame_idx :: real) / of_int total_frames"
  have pos: "(0::real) < of_int total_frames" using assms(3) by simp
  have q0: "0 \<le> ?q" using assms(1) pos by simp
  have q1: "?q \<le> 1" using assms(2) pos by (simp add: divide_le_eq)
  define d where "d = \<bar>?q - 1 / 2\<bar>"
  have d_hi: "d \<le> 1 / 2" unfolding d_def using q0 q1 by linarith
  have d_lo: "0 \<le> d" unfolding d_def by simp
  have lo: "85 / 100 \<le> 1 - d * (3 / 10)" using d_hi by linarith
  have hi: "1 - d * (3 / 10) \<le> 1" using d_lo by linarith
  have "total_frames \<noteq> 0" using assms(3) by simp
  then have "temporal_weight frame_idx total_frames = Inr (1 - d * (3 / 10))"
    unfolding d_def by (rule temporal_weight_value)
  with lo hi show ?thesis by blast
qed

lemma audio_weight_range:
  assumes "0 \<le> audio_power"
  shows "0 \<le> audio_weight audio_power \<and> audio_weight audio_power \<le> 1"
  using assms by (simp add: audio_weight_def)

text \<open>
  Claim C4. For valid inputs (a non-negative base strength, a non-negative audio power, a
  frame index between 0 and the total, at least one frame) the computation returns a
  weight, the weight is the product of the base strength with the temporal and the audio
  factor, both factors lie in \<open>[0, 1]\<close>, and the weight lies in \<open>[0, base_strength]\<close>.
\<close>

theorem guidance_strength_bounded:
  assumes "0 \<le> base_strength" and "0 \<le> audio_power"
    and "0 \<le> frame_idx" and "frame_idx \<le> total_frames" and "1 \<le> total_frames"
  shows "\<exists>tw g. temporal_weight frame_idx total_frames = Inr tw
           \<and> 0 \<le> tw \<and> tw \<le> 1
           \<and> 0 \<le> audio_weight audio_power \<and> audio_weight audio_power \<le> 1
           \<and> compute_guidance_strength base_strength audio_power frame_idx total_frames = Inr g
           \<and> g = base_strength * tw * audio_weight audio_power
           \<and> 0 \<le> g \<and> g \<le> base_strength"
proof -
  obtain tw where tw: "temporal_weight frame_idx total_frames = Inr tw"
    and tw_lo: "85 / 100 \<le> tw" and tw_hi: "tw \<le> 1"
    using temporal_weight_range [OF assms(3) assms(4) assms(5)] by blast
  let ?aw = "audio_weight audio_power"
  have aw: "0 \<le> ?aw" "?aw \<le> 1" using audio_weight_range [OF assms(2)] by simp_all
  have tw0: "0 \<le> tw" using tw_lo by simp
  have f0: "0 \<le> tw * ?aw" using tw0 aw(1) by simp
  have f1: "tw * ?aw \<le> 1" using tw0 tw_hi aw by (simp add: mult_le_one)
  have g0: "0 \<le> base_strength * (tw * ?aw)" using assms(1) f0 by simp
  have g1: "base_strength * (tw * ?aw) \<le> base_strength"
    using assms(1) f1 by (simp add: mult_left_le)
  have "compute_guidance_strength base_strength audio_power frame_idx total_frames
          = Inr (base_strength * tw * ?aw)"
    by (simp add: compute_guidance_strength_def tw)
  then show ?thesis using tw tw0 tw_hi aw g0 g1 by (simp add: mult.assoc)
qed

theorem guidance_strength_bounded_witness:
  "(0::real) \<le> 7 / 10 \<and> (0::real) \<le> 1 \<and> (0::int) \<le> 5 \<and> (5::int) \<le> 10 \<and> (1::int) \<le> 10
   \<and> (\<exists>g. compute_guidance_strength (7 / 10) 1 5 10 = Inr g \<and> 0 \<le> g \<and> g \<le> 7 / 10)"
  using guidance_strength_bounded [of "7 / 10" 1 5 10] by auto

text \<open>
  Claim C5, as the source behaves. With \<open>total_frames = 0\<close> the division
  \<^verbatim>\<open>frame_idx / total_frames\<close> is the first thing evaluated, so the call ends in
  Python's \<open>ZeroDivisionError\<close> for every base strength, audio power and frame index;
  nothing checks the argument beforehand.
\<close>

theorem guidance_zero_total_frames:
  "compute_guidance_strength base_strength audio_power frame_idx 0 = Inl ZeroDivisionError"
  by (simp add: compute_guidance_strength_def temporal_weight_def py_truediv_def)

theorem guidance_zero_total_frames_not_invalid_argument:
  "compute_guidance_strength (7 / 10) 1 0 0 = Inl ZeroDivisionError
   \<and> compute_guidance_strength (7 / 10) 1 0 0 \<noteq> Inl InvalidArgument"
  by (simp add: compute_guidance_strength_def temporal_weight_def py_truediv_def)

subsection \<open>Alignment\<close>

lemma py_int_nonneg: "0 \<le> x \<Longrightarrow> py_int x = \<lfloor>x\<rfloor>"
  by (simp add: py_int_def)

lemma floor_nat_quotient: "\<lfloor>real m / real n\<rfloor> = int (m div n)"
  by (simp add: floor_divide_of_nat_eq)

lemma scaled_index_less:
  fixes i t a :: nat
  assumes "i < t"
  shows "(i * a) div t \<le> a - 1"
proof (cases "a = 0")
  case True
  then show ?thesis by simp
next
  case False
  have "i * a < t * a" using assms False by simp
  then have "(i * a) div t < a"
    by (simp add: less_mult_imp_div_less mult.commute)
  then show ?thesis by simp
qed

lemma spec_source_index_div:
  assumes "1 \<le> a" "i < t"
  shows "spec_source_index a t i = int ((i * a) div t)"
proof -
  have "\<lfloor>real i * real a / real t\<rfloor> = int ((i * a) div t)"
    using floor_nat_quotient [of "i * a" t] by simp
  moreover have "int ((i * a) div t) \<le> int a - 1"
    using scaled_index_less [OF assms(2), of a] assms(1) by linarith
  ultimately show ?thesis by (simp add: spec_source_index_def)
qed

lemma audio_idx_spec:
  assumes "1 \<le> shape1 mel_spec" "i < target_frames"
  shows "audio_idx mel_spec target_frames i
           = Inr (spec_source_index (shape1 mel_spec) target_frames i)"
proof -
  have t: "real target_frames \<noteq> 0" using assms(2) by simp
  have q: "py_int (real (i * shape1 mel_spec) / real target_frames)
             = int ((i * shape1 mel_spec) div target_frames)"
    using floor_nat_quotient [of "i * shape1 mel_spec" target_frames]
    by (simp add: py_int_nonneg)
  have "int ((i * shape1 mel_spec) div target_frames) \<le> int (shape1 mel_spec) - 1"
    using scaled_index_less [OF assms(2), of "shape1 mel_spec"] assms(1) by linarith
  then show ?thesis
    using t q spec_source_index_div [OF assms]
    by (simp add: audio_idx_def py_truediv_def del: of_nat_mult)
qed

lemma spec_source_index_range:
  assumes "1 \<le> a" "i < t"
  shows "0 \<le> spec_source_index a t i \<and> spec_source_index a t i \<le> int a - 1"
  using scaled_index_less [OF assms(2), of a] assms(1)
  by (simp add: spec_source_index_div [OF assms])

lemma spec_source_index_mono:
  assumes "1 \<le> a" "i \<le> j" "j < t"
  shows "spec_source_index a t i \<le> spec_source_index a t j"
proof -
  have "i < t" using assms by simp
  moreover have "(i * a) div t \<le> (j * a) div t"
    using assms(2) by (simp add: div_le_mono)
  ultimately show ?thesis
    using assms by (simp add: spec_source_index_div)
qed


lemma column_in_range:
  assumes "0 \<le> j" "j \<le> int (shape1 m) - 1"
  shows "column m j = Inr (map (\<lambda>b. entry m b (nat j)) [0..<shape0 m])"
  using assms by (simp add: column_def Let_def)

lemma column_spec_index:
  assumes "1 \<le> shape1 m" "i < t"
  shows "column m (spec_source_index (shape1 m) t i)
           = Inr (map (\<lambda>b. entry m b (nat (spec_source_index (shape1 m) t i))) [0..<shape0 m])"
  using spec_source_index_range [OF assms] by (simp add: column_in_range)

lemma align_loop_rows:
  assumes "1 \<le> shape1 m" "\<forall>i\<in>set todo. i < t" "t \<le> length acc"
  shows "\<exists>res. align_loop m t todo acc = Inr res \<and> length res = length acc
           \<and> (\<forall>k<length acc. res ! k =
                 (if k \<in> set todo
                  then map (\<lambda>b. entry m b (nat (spec_source_index (shape1 m) t k))) [0..<shape0 m]
                  else acc ! k))"
  using assms(2,3)
proof (induction todo arbitrary: acc)
  case Nil
  then show ?case by simp
next
  case (Cons i rest)
  let ?v = "map (\<lambda>b. entry m b (nat (spec_source_index (shape1 m) t i))) [0..<shape0 m]"
  have it: "i < t" using Cons.prems(1) by simp
  have il: "i < length acc" using it Cons.prems(2) by simp
  have step: "align_loop m t (i # rest) acc = align_loop m t rest (acc[i := ?v])"
    using il by (simp add: audio_idx_spec [OF assms(1) it] column_spec_index [OF assms(1) it])
  have "\<forall>i\<in>set rest. i < t" using Cons.prems(1) by simp
  moreover have "t \<le> length (acc[i := ?v])" using Cons.prems(2) by simp
  ultimately obtain res where res: "align_loop m t rest (acc[i := ?v]) = Inr res"
    and len: "length res = length (acc[i := ?v])"
    and rows: "\<forall>k<length (acc[i := ?v]). res ! k =
                 (if k \<in> set rest
                  then map (\<lambda>b. entry m b (nat (spec_source_index (shape1 m) t k))) [0..<shape0 m]
                  else (acc[i := ?v]) ! k)"
    using Cons.IH [of "acc[i := ?v]"] by blast
  have "\<forall>k<length acc. res ! k =
          (if k \<in> set (i # rest)
           then map (\<lambda>b. entry m b (nat (spec_source_index (shape1 m) t k))) [0..<shape0 m]
           else acc ! k)"
  proof (intro allI impI)
    fix k assume k: "k < length acc"
    then have "res ! k =
                 (if k \<in> set rest
                  then map (\<lambda>b. entry m b (nat (spec_source_index (shape1 m) t k))) [0..<shape0 m]
                  else (acc[i := ?v]) ! k)"
      using rows by simp
    then show "res ! k =
          (if k \<in> set (i # rest)
           then map (\<lambda>b. entry m b (nat (spec_source_index (shape1 m) t k))) [0..<shape0 m]
           else acc ! k)"
      using k by (cases "k = i") simp_all
  qed
  then show ?case using step res len by simp
qed

lemma audio_idx_zero_columns:
  assumes "shape1 m = 0" "t \<noteq> 0"
  shows "audio_idx m t i = Inr (- 1)"
  using assms by (simp add: audio_idx_def py_truediv_def py_int_def)

lemma align_loop_zero_columns:
  assumes "shape1 m = 0" "t \<noteq> 0"
  shows "align_loop m t (i # rest) acc = Inl IndexError"
  using assms by (simp add: audio_idx_zero_columns column_def)

lemma align_nonzero_duration:
  assumes "audio_length features \<noteq> 0"
  shows "align_audio_video features video_frames =
           (case align_loop (mel_spectrogram features) (length video_frames) [0..<length video_frames]
                   (replicate (length video_frames) (replicate (shape0 (mel_spectrogram features)) 0)) of
              Inl e \<Rightarrow> Inl e
            | Inr aligned \<Rightarrow> Inr (aligned, video_frames))"
  using assms by (simp add: align_audio_video_def py_truediv_def Let_def)

text \<open>
  Claim C2, with the precondition the source needs. For a non-zero audio duration, at
  least one video frame and at least one audio column, \<open>align_audio_video\<close> returns a
  track with one entry per video frame (100 entries for 100 frames); entry \<open>i\<close> is the
  column \<open>clamp(floor(i * audioFrameCount / targetFrameCount), 0, audioFrameCount - 1)\<close>,
  which is the index the loop selects; that index lies in \<open>[0, audioFrameCount - 1]\<close>
  and does not decrease with \<open>i\<close>.
\<close>

theorem align_track:
  assumes "audio_length features \<noteq> 0"
    and "1 \<le> length video_frames"
    and "1 \<le> shape1 (mel_spectrogram features)"
  shows "\<exists>track. align_audio_video features video_frames = Inr (track, video_frames)
           \<and> length track = length video_frames
           \<and> (length video_frames = 100 \<longrightarrow> length track = 100)
           \<and> (\<forall>i<length video_frames.
                 audio_idx (mel_spectrogram features) (length video_frames) i
                   = Inr (spec_source_index (shape1 (mel_spectrogram features)) (length video_frames) i)
                 \<and> column (mel_spectrogram features)
                     (spec_source_index (shape1 (mel_spectrogram features)) (length video_frames) i)
                   = Inr (track ! i)
                 \<and> 0 \<le> spec_source_index (shape1 (mel_spectrogram features)) (length video_frames) i
                 \<and> spec_source_index (shape1 (mel_spectrogram features)) (length video_frames) i
                     \<le> int (shape1 (mel_spectrogram features)) - 1)
           \<and> (\<forall>i j. i \<le> j \<and> j < length video_frames \<longrightarrow>
                 spec_source_index (shape1 (mel_spectrogram features)) (length video_frames) i
                   \<le> spec_source_index (shape1 (mel_spectrogram features)) (length video_frames) j)"
proof -
  let ?m = "mel_spectrogram features"
  let ?t = "length video_frames"
  let ?zeros = "replicate ?t (replicate (shape0 ?m) (0::real))"
  have "\<forall>i\<in>set [0..<?t]. i < ?t" by simp
  moreover have "?t \<le> length ?zeros" by simp
  ultimately obtain track where run: "align_loop ?m ?t [0..<?t] ?zeros = Inr track"
    and len: "length track = length ?zeros"
    and rows: "\<forall>k<length ?zeros. track ! k =
                 (if k \<in> set [0..<?t]
                  then map (\<lambda>b. entry ?m b (nat (spec_source_index (shape1 ?m) ?t k))) [0..<shape0 ?m]
                  else ?zeros ! k)"
    using align_loop_rows [OF assms(3), of "[0..<?t]" ?t ?zeros] by blast
  have res: "align_audio_video features video_frames = Inr (track, video_frames)"
    using run by (simp add: align_nonzero_duration [OF assms(1)])
  have len': "length track = ?t" using len by simp
  have entries: "\<forall>i<?t. audio_idx ?m ?t i = Inr (spec_source_index (shape1 ?m) ?t i)
                   \<and> column ?m (spec_source_index (shape1 ?m) ?t i) = Inr (track ! i)
                   \<and> 0 \<le> spec_source_index (shape1 ?m) ?t i
                   \<and> spec_source_index (shape1 ?m) ?t i \<le> int (shape1 ?m) - 1"
  proof (intro allI impI)
    fix i assume i: "i < ?t"
    have "track ! i = map (\<lambda>b. entry ?m b (nat (spec_source_index (shape1 ?m) ?t i))) [0..<shape0 ?m]"
      using rows i by simp
    then show "audio_idx ?m ?t i = Inr (spec_source_index (shape1 ?m) ?t i)
                   \<and> column ?m (spec_source_index (shape1 ?m) ?t i) = Inr (track ! i)
                   \<and> 0 \<le> spec_source_index (shape1 ?m) ?t i
                   \<and> spec_source_index (shape1 ?m) ?t i \<le> int (shape1 ?m) - 1"
      using audio_idx_spec [OF assms(3) i] column_spec_index [OF assms(3) i]
        spec_source_index_range [OF assms(3) i] by simp
  qed
  have mono: "\<forall>i j. i \<le> j \<and> j < ?t \<longrightarrow>
                 spec_source_index (shape1 ?m) ?t i \<le> spec_source_index (shape1 ?m) ?t j"
    using spec_source_index_mono [OF assms(3)] by blast
  show ?thesis
  proof (intro exI [of _ track] conjI)
    show "align_audio_video features video_frames = Inr (track, video_frames)" by (rule res)
    show "length track = ?t" by (rule len')
    show "?t = 100 \<longrightarrow> length track = 100" using len' by simp
    show "\<forall>i<?t. audio_idx ?m ?t i = Inr (spec_source_index (shape1 ?m) ?t i)
                   \<and> column ?m (spec_source_index (shape1 ?m) ?t i) = Inr (track ! i)
                   \<and> 0 \<le> spec_source_index (shape1 ?m) ?t i
                   \<and> spec_source_index (shape1 ?m) ?t i \<le> int (shape1 ?m) - 1"
      by (rule entries)
    show "\<forall>i j. i \<le> j \<and> j < ?t \<longrightarrow>
                 spec_source_index (shape1 ?m) ?t i \<le> spec_source_index (shape1 ?m) ?t j"
      by (rule mono)
  qed
qed


theorem align_track_witness:
  "audio_length example_features \<noteq> 0
   \<and> 1 \<le> length [10, 20, 30, 40 :: nat]
   \<and> 1 \<le> shape1 (mel_spectrogram example_features)
   \<and> (\<exists>track. align_audio_video example_features [10, 20, 30, 40 :: nat]
                  = Inr (track, [10, 20, 30, 40])
          \<and> length track = 4)"
proof -
  have h1: "audio_length example_features \<noteq> 0" by (simp add: example_features_def)
  have h2: "1 \<le> length [10, 20, 30, 40 :: nat]" by simp
  have h3: "1 \<le> shape1 (mel_spectrogram example_features)"
    by (simp add: example_features_def example_mel_def)
  from align_track [OF h1 h2 h3] obtain track where
    "align_audio_video example_features [10, 20, 30, 40 :: nat] = Inr (track, [10, 20, 30, 40])"
    "length track = length [10, 20, 30, 40 :: nat]"
    by (elim exE conjE)
  then show ?thesis using h1 h2 h3 by simp
qed

text \<open>
  Claim C6, as the source behaves. On a feature matrix without columns (and a non-zero
  audio duration) the call raises \<open>IndexError\<close> as soon as there is a video frame:
  the selected index is \<open>min(0, -1) = -1\<close>, out of bounds for an axis of size 0. With
  no video frame the loop body never runs and the empty track is returned.
\<close>

theorem align_zero_columns:
  assumes "shape1 (mel_spectrogram features) = 0" and "audio_length features \<noteq> 0"
  shows "align_audio_video features video_frames =
           (if video_frames = [] then Inr ([], video_frames) else Inl IndexError)"
proof (cases video_frames)
  case Nil
  then show ?thesis by (simp add: align_nonzero_duration [OF assms(2)])
next
  case (Cons f fs)
  have "[0..<length video_frames] = 0 # [1..<length video_frames]"
    using Cons by (simp add: upt_rec)
  moreover have "length video_frames \<noteq> 0" using Cons by simp
  ultimately show ?thesis
    using Cons align_loop_zero_columns [OF assms(1)]
    by (simp add: align_nonzero_duration [OF assms(2)])
qed

theorem align_zero_columns_witness:
  "shape1 (mel_spectrogram empty_mel_features) = 0 \<and> audio_length empty_mel_features \<noteq> 0
   \<and> align_audio_video empty_mel_features [10, 20 :: nat] = Inl IndexError"
  using align_zero_columns [of empty_mel_features "[10, 20 :: nat]"]
  by (simp add: empty_mel_features_def)

theorem align_zero_columns_not_alignment_error:
  "align_audio_video empty_mel_features ([] :: nat list) = Inr ([], [])
   \<and> align_audio_video empty_mel_features [10 :: nat] = Inl IndexError
   \<and> align_audio_video empty_mel_features [10 :: nat] \<noteq> Inl AlignmentError"
  by (simp add: empty_mel_features_def align_audio_video_def audio_idx_def
      column_def py_truediv_def py_int_def Let_def)

text \<open>
  Claim C7, with the precondition the source needs. For a non-zero audio duration and
  no video frame, \<open>align_audio_video\<close> returns the empty track and raises nothing,
  whatever the number of audio columns.
\<close>

theorem align_no_frames:
  assumes "audio_length features \<noteq> 0"
  shows "align_audio_video features ([] :: 'f list) = Inr ([], [])"
  by (simp add: align_nonzero_duration [OF assms])

theorem align_no_frames_witness:
  "audio_length example_features \<noteq> 0
   \<and> align_audio_video example_features ([] :: nat list) = Inr ([], [])"
  using align_no_frames [of example_features, where ?'f = nat]
  by (simp add: example_features_def)

text \<open>
  Without the precondition the statement fails: a matrix of two columns with an audio
  duration of 0 ends in \<open>ZeroDivisionError\<close> although there is no video frame.
\<close>

theorem align_no_frames_silent_audio:
  "1 \<le> shape1 (mel_spectrogram silent_features)
   \<and> align_audio_video silent_features ([] :: nat list) = Inl ZeroDivisionError"
  by (simp add: silent_features_def example_mel_def align_audio_video_def py_truediv_def)

text \<open>
  Without the precondition the statement fails: two frames, two audio columns and an
  audio duration of 0 end in \<open>ZeroDivisionError\<close>.
\<close>

theorem align_track_silent_audio:
  "1 \<le> length [10, 20 :: nat] \<and> 1 \<le> shape1 (mel_spectrogram silent_features)
   \<and> align_audio_video silent_features [10, 20 :: nat] = Inl ZeroDivisionError"
  by (simp add: silent_features_def example_mel_def align_audio_video_def py_truediv_def)

text \<open>
  Claim C9. The division \<^verbatim>\<open>len(video_frames) / audio_length\<close> comes first, so every
  call with an audio duration of 0 ends in \<open>ZeroDivisionError\<close>, for every frame list
  (the empty one too) and every matrix; a call that returns therefore had a non-zero
  duration, and a strictly positive one as durations are not negative.
\<close>

theorem align_needs_positive_duration:
  "(audio_length features = 0 \<longrightarrow> align_audio_video features video_frames = Inl ZeroDivisionError)
   \<and> (\<forall>r. align_audio_video features video_frames = Inr r \<longrightarrow> audio_length features \<noteq> 0)
   \<and> (\<forall>r. 0 \<le> audio_length features \<and> align_audio_video features video_frames = Inr r
          \<longrightarrow> 0 < audio_length features)"
proof -
  have zero: "audio_length features = 0 \<Longrightarrow> align_audio_video features video_frames = Inl ZeroDivisionError"
    by (simp add: align_audio_video_def py_truediv_def)
  then have nz: "\<And>r. align_audio_video features video_frames = Inr r \<Longrightarrow> audio_length features \<noteq> 0"
    by auto
  then have "\<And>r. 0 \<le> audio_length features \<Longrightarrow> align_audio_video features video_frames = Inr r
                 \<Longrightarrow> 0 < audio_length features"
    by fastforce
  with zero nz show ?thesis by blast
qed

theorem align_needs_positive_duration_witness:
  "audio_length silent_features = 0
   \<and> align_audio_video silent_features ([] :: nat list) = Inl ZeroDivisionError
   \<and> align_audio_video example_features [10 :: nat] = Inr ([[0, 10]], [10])
   \<and> 0 < audio_length example_features"
proof -
  have a: "audio_length silent_features = 0" by (simp add: silent_features_def)
  have b: "align_audio_video example_features [10 :: nat] = Inr ([[0, 10]], [10])"
    by (simp add: example_features_def example_mel_def align_audio_video_def audio_idx_def
      column_def py_truediv_def py_int_def Let_def upt_rec)
  have c: "0 \<le> audio_length example_features" by (simp add: example_features_def)
  show ?thesis
    using align_needs_positive_duration [of silent_features "[] :: nat list"]
      align_needs_positive_duration [of example_features "[10 :: nat]"] a b c
    by simp
qed

subsection \<open>The frame loop\<close>

lemma guidance_defined:
  assumes "total_frames \<noteq> 0"
  shows "\<exists>g. compute_guidance_strength base_strength p frame_idx total_frames = Inr g"
  using assms by (simp add: compute_guidance_strength_def temporal_weight_value)

lemma lip_sync_loop_output:
  "fst (lip_sync_loop caps aligned_audio n i frames out calls) = Inr res \<Longrightarrow> res = out @ frames"
proof (induction frames arbitrary: i out calls)
  case Nil
  then show ?case by simp
next
  case (Cons frame rest)
  show ?case
  proof (cases "detect_face caps frame")
    case (Inl e)
    then show ?thesis using Cons.prems by simp
  next
    case (Inr found)
    show ?thesis
    proof (cases found)
      case None
      then have "fst (lip_sync_loop caps aligned_audio n (i + 1) rest (out @ [frame]) calls) = Inr res"
        using Cons.prems Inr by simp
      then have "res = (out @ [frame]) @ rest" by (rule Cons.IH)
      then show ?thesis by simp
    next
      case (Some face_bbox)
      let ?calls = "calls @ [Resize (extract_lip_region frame face_bbox) (64, 64)]"
      have "fst (lip_sync_loop caps aligned_audio n (i + 1) rest (out @ [frame]) ?calls) = Inr res"
        using Cons.prems Inr Some
        by (simp add: Let_def split: sum.splits)
      then have "res = (out @ [frame]) @ rest" by (rule Cons.IH)
      then show ?thesis by simp
    qed
  qed
qed

lemma lip_sync_loop_returns:
  assumes "n \<noteq> 0"
  shows "(\<forall>k<length frames. external_calls_return caps aligned_audio (i + k) (frames ! k))
           \<Longrightarrow> fst (lip_sync_loop caps aligned_audio n i frames out calls) = Inr (out @ frames)"
proof (induction frames arbitrary: i out calls)
  case Nil
  then show ?case by simp
next
  case (Cons frame rest)
  have here: "external_calls_return caps aligned_audio i frame"
    using Cons.prems by fastforce
  have later: "\<forall>k<length rest. external_calls_return caps aligned_audio ((i + 1) + k) (rest ! k)"
  proof (intro allI impI)
    fix k assume "k < length rest"
    then have "external_calls_return caps aligned_audio (i + Suc k) ((frame # rest) ! Suc k)"
      using Cons.prems by (metis Suc_less_eq length_Cons)
    then show "external_calls_return caps aligned_audio ((i + 1) + k) (rest ! k)" by simp
  qed
  have ih: "\<And>out' calls'. fst (lip_sync_loop caps aligned_audio n (i + 1) rest out' calls')
              = Inr (out' @ rest)"
    using Cons.IH [OF later] by simp
  have g: "\<And>p. \<exists>g. compute_guidance_strength 0.7 p (int i) (int n) = Inr g"
    using guidance_defined [of "int n"] assms by simp
  show ?case
  proof (cases "detect_face caps frame")
    case (Inl e)
    then show ?thesis using here by (simp add: external_calls_return_def)
  next
    case (Inr found)
    show ?thesis
    proof (cases found)
      case None
      then show ?thesis using Inr ih by simp
    next
      case (Some face_bbox)
      have row: "aligned_row aligned_audio i = Inr (aligned_audio ! i)"
        using here Inr Some by (simp add: external_calls_return_def aligned_row_def)
      obtain lip_resized where
        rs: "cv2_resize caps (extract_lip_region frame face_bbox) (64, 64) = Inr lip_resized"
        using here Inr Some by (auto simp: external_calls_return_def split: sum.splits)
      obtain visual_input where
        vi: "to_visual_input caps lip_resized = Inr visual_input"
        using here Inr Some rs by (auto simp: external_calls_return_def split: sum.splits)
      obtain feats where
        fw: "model_forward caps (aligned_audio ! i) visual_input = Inr feats"
        using here Inr Some rs vi by (auto simp: external_calls_return_def split: sum.splits)
      obtain gs where
        gs: "compute_guidance_strength 0.7 (np_mean_square (aligned_audio ! i)) (int i) (int n) = Inr gs"
        using g by blast
      show ?thesis using Inr Some row rs vi fw gs ih by (simp add: Let_def)
    qed
  qed
qed

lemma lip_sync_loop_calls:
  "\<exists>extra. snd (lip_sync_loop caps aligned_audio n i frames out calls) = calls @ extra"
proof (induction frames arbitrary: i out calls)
  case Nil
  then show ?case by simp
next
  case (Cons frame rest)
  show ?case
  proof (cases "detect_face caps frame")
    case (Inl e)
    then show ?thesis by simp
  next
    case (Inr found)
    show ?thesis
    proof (cases found)
      case None
      then show ?thesis using Inr Cons.IH by simp
    next
      case (Some face_bbox)
      let ?calls = "calls @ [Resize (extract_lip_region frame face_bbox) (64, 64)]"
      obtain extra where
        "snd (lip_sync_loop caps aligned_audio n (i + 1) rest (out @ [frame]) ?calls) = ?calls @ extra"
        using Cons.IH by blast
      then show ?thesis using Inr Some
        by (simp add: Let_def split: sum.splits)
    qed
  qed
qed

lemma first_frame_resized:
  assumes "detect_face caps frame = Inr (Some face_bbox)" and "aligned_audio \<noteq> []"
  shows "Resize (extract_lip_region frame face_bbox) (64, 64)
           \<in> set (snd (generate_frames caps aligned_audio (frame # rest)))"
proof -
  let ?calls = "[Resize (extract_lip_region frame face_bbox) (64, 64)]"
  have row: "aligned_row aligned_audio 0 = Inr (aligned_audio ! 0)"
    using assms(2) by (simp add: aligned_row_def)
  obtain extra where
    ex: "snd (lip_sync_loop caps aligned_audio (length (frame # rest)) (0 + 1) rest ([] @ [frame]) ?calls)
          = ?calls @ extra"
    using lip_sync_loop_calls by blast
  have "\<exists>extra'. snd (generate_frames caps aligned_audio (frame # rest)) = ?calls @ extra'"
    using assms(1) row ex
    by (simp add: generate_frames_def Let_def split: sum.splits)
  then show ?thesis by auto
qed


text \<open>
  Claim C1. Whenever the frame loop returns, its output is the input frame list: one
  output frame per input frame, in input order, each equal to the input frame, in the
  branch without a detected face and in the synthesizing branch alike (the result of
  the network is computed and dropped). The loop does return whenever the library calls
  it makes return; in particular the guidance computation cannot fail inside the loop.
\<close>

theorem generate_frames_passthrough:
  "(\<forall>out. fst (generate_frames caps aligned_audio frames) = Inr out \<longrightarrow> out = frames)
   \<and> ((\<forall>i<length frames. external_calls_return caps aligned_audio i (frames ! i))
        \<longrightarrow> fst (generate_frames caps aligned_audio frames) = Inr frames)"
proof (intro conjI allI impI)
  fix out
  assume "fst (generate_frames caps aligned_audio frames) = Inr out"
  then have "out = [] @ frames"
    unfolding generate_frames_def by (rule lip_sync_loop_output)
  then show "out = frames" by simp
next
  assume ok: "\<forall>i<length frames. external_calls_return caps aligned_audio i (frames ! i)"
  show "fst (generate_frames caps aligned_audio frames) = Inr frames"
  proof (cases "frames = []")
    case True
    then show ?thesis by (simp add: generate_frames_def)
  next
    case False
    then have n: "length frames \<noteq> 0" by simp
    have "\<forall>k<length frames. external_calls_return caps aligned_audio (0 + k) (frames ! k)"
      using ok by simp
    then have "fst (lip_sync_loop caps aligned_audio (length frames) 0 frames [] [])
                 = Inr ([] @ frames)"
      by (rule lip_sync_loop_returns [OF n])
    then show ?thesis by (simp add: generate_frames_def)
  qed
qed

lemma example_crop_rows:
  "img_rows (extract_lip_region example_frame (2, 2, 10, 10)) = 3"
  by (simp add: example_frame_def slice2_def slice_bound_def py_int_def Let_def)

theorem generate_frames_passthrough_witness:
  "external_calls_return wide_box_caps [[0, 10], [1, 11]] 0 blank_frame
   \<and> external_calls_return wide_box_caps [[0, 10], [1, 11]] 1 example_frame
   \<and> detect_face wide_box_caps blank_frame = Inr None
   \<and> detect_face wide_box_caps example_frame = Inr (Some (2, 2, 10, 10))
   \<and> fst (generate_frames wide_box_caps [[0, 10], [1, 11]] [blank_frame, example_frame])
        = Inr [blank_frame, example_frame]"
proof -
  have d0: "detect_face wide_box_caps blank_frame = Inr None"
    by (simp add: wide_box_caps_def example_caps_def blank_frame_def)
  have d1: "detect_face wide_box_caps example_frame = Inr (Some (2, 2, 10, 10))"
    by (simp add: wide_box_caps_def example_caps_def example_frame_def)
  have cols: "img_cols (extract_lip_region example_frame (2, 2, 10, 10)) = 6"
    by (simp add: example_frame_def slice2_def slice_bound_def py_int_def Let_def)
  have e0: "external_calls_return wide_box_caps [[0, 10], [1, 11]] 0 blank_frame"
    using d0 by (simp add: external_calls_return_def)
  have e1: "external_calls_return wide_box_caps [[0, 10], [1, 11]] 1 example_frame"
    using d1 example_crop_rows cols
    by (simp add: external_calls_return_def wide_box_caps_def example_caps_def del: extract_lip_region.simps)
  have ok: "\<forall>i<length [blank_frame, example_frame].
      external_calls_return wide_box_caps [[0, 10], [1, 11]] i ([blank_frame, example_frame] ! i)"
    using e0 e1 by (simp add: less_Suc_eq)
  show ?thesis
    using generate_frames_passthrough
      [of wide_box_caps "[[0, 10], [1, 11]]" "[blank_frame, example_frame]"] ok e0 e1 d0 d1
    by blast
qed

text \<open>
  Claim C10. The truncations \<open>int(3 * 0.33)\<close> and \<open>int(1 * 0.6)\<close> are 0, so a box of
  height 3 (of any width, so also a positive one) gives a region without rows and a box
  of width 1 a region without columns; and the region of a detected box, empty or not,
  is what the synthesizing branch hands to the resize to 64 by 64.
\<close>

theorem small_box_empty_region:
  "py_int (of_int 3 * 0.33) = 0 \<and> py_int (of_int 1 * 0.6) = 0
   \<and> img_rows (extract_lip_region frame (x, y, w, 3)) = 0
   \<and> img_cols (extract_lip_region frame (x, y, 1, h)) = 0
   \<and> (detect_face caps frame = Inr (Some face_bbox) \<and> aligned_audio \<noteq> []
        \<longrightarrow> Resize (extract_lip_region frame face_bbox) (64, 64)
              \<in> set (snd (generate_frames caps aligned_audio (frame # rest))))"
proof (intro conjI impI)
  show "py_int (of_int 3 * 0.33) = 0" by (simp add: py_int_def)
  show "py_int (of_int 1 * 0.6) = 0" by (simp add: py_int_def)
  show "img_rows (extract_lip_region frame (x, y, w, 3)) = 0"
    by (simp add: slice2_def py_int_def Let_def)
  show "img_cols (extract_lip_region frame (x, y, 1, h)) = 0"
    by (simp add: slice2_def py_int_def Let_def)
next
  assume "detect_face caps frame = Inr (Some face_bbox) \<and> aligned_audio \<noteq> []"
  then show "Resize (extract_lip_region frame face_bbox) (64, 64)
              \<in> set (snd (generate_frames caps aligned_audio (frame # rest)))"
    using first_frame_resized by blast
qed

theorem small_box_empty_region_witness:
  "detect_face example_caps example_frame = Inr (Some (0, 0, 10, 3))
   \<and> [[0, 10 :: real]] \<noteq> []
   \<and> (0 :: int) < 10 \<and> (0 :: int) < 3
   \<and> img_rows (extract_lip_region example_frame (0, 0, 10, 3)) = 0
   \<and> Resize (extract_lip_region example_frame (0, 0, 10, 3)) (64, 64)
        \<in> set (snd (generate_frames example_caps [[0, 10]] [example_frame]))"
proof -
  have d: "detect_face example_caps example_frame = Inr (Some (0, 0, 10, 3))"
    by (simp add: example_caps_def example_frame_def)
  have a: "[[0, 10 :: real]] \<noteq> []" by simp
  show ?thesis
    using small_box_empty_region
      [of example_frame 0 0 10 0 example_caps "(0, 0, 10, 3)" "[[0, 10]]" "[]"] d a
    by (simp del: extract_lip_region.simps)
qed

subsection \<open>Saving the video\<close>

text \<open>
  Claim C8. On an empty frame list \<open>save_video\<close> returns without an error and without
  any call to the video writer, for every frame rate, output path and writer behaviour.
\<close>

theorem save_video_no_frames:
  "save_video caps [] output_path fps calls = (Inr (), calls)"
  by (simp add: save_video_def)


subsection \<open>The lip region\<close>

lemma slice_bound_inside:
  assumes "0 \<le> i" "i \<le> int n"
  shows "slice_bound n i = nat i"
  using assms by (simp add: slice_bound_def)

lemma floor_parts:
  fixes n :: int and p q :: real
  assumes "0 \<le> n" "0 \<le> p" "0 \<le> q" "p + q \<le> 1"
  shows "0 \<le> \<lfloor>of_int n * p\<rfloor>" and "0 \<le> \<lfloor>of_int n * q\<rfloor>"
    and "\<lfloor>of_int n * p\<rfloor> + \<lfloor>of_int n * q\<rfloor> \<le> n"
proof -
  have n0: "(0::real) \<le> of_int n" using assms(1) by simp
  show "0 \<le> \<lfloor>of_int n * p\<rfloor>" using n0 assms(2) by simp
  show "0 \<le> \<lfloor>of_int n * q\<rfloor>" using n0 assms(3) by simp
  have "of_int n * p + of_int n * q = of_int n * (p + q)" by (simp add: distrib_left)
  also have "\<dots> \<le> of_int n * 1" using n0 assms(4) by (rule mult_left_mono [rotated]) 
  finally have sum: "of_int n * p + of_int n * q \<le> of_int n" by simp
  have "of_int \<lfloor>of_int n * p\<rfloor> \<le> of_int n * p" by (rule of_int_floor_le)
  moreover have "of_int \<lfloor>of_int n * q\<rfloor> \<le> of_int n * q" by (rule of_int_floor_le)
  ultimately have "(of_int \<lfloor>of_int n * p\<rfloor> :: real) + of_int \<lfloor>of_int n * q\<rfloor> \<le> of_int n"
    using sum by linarith
  then have "(of_int (\<lfloor>of_int n * p\<rfloor> + \<lfloor>of_int n * q\<rfloor>) :: real) \<le> of_int n"
    by simp
  then show "\<lfloor>of_int n * p\<rfloor> + \<lfloor>of_int n * q\<rfloor> \<le> n" by (simp only: of_int_le_iff)
qed

text \<open>
  Claim C3, as the source computes it. For a box with non-negative sides inside the
  frame, the region is the sub-image of \<open>floor(0.33 h)\<close> rows and \<open>floor(0.6 w)\<close>
  columns that starts at row \<open>y + floor(0.67 h)\<close> and column \<open>x + floor(0.2 w)\<close>:
  each of the four products is truncated on its own. The region ends inside the box,
  at or before row \<open>y + h\<close> and column \<open>x + w\<close>.
\<close>

theorem extract_lip_region_inside_frame:
  assumes "0 \<le> x" and "0 \<le> y" and "0 \<le> w" and "0 \<le> h"
    and "x + w \<le> int (img_cols frame)" and "y + h \<le> int (img_rows frame)"
  shows "extract_lip_region frame (x, y, w, h) =
           \<lparr>img_rows = nat \<lfloor>real_of_int h * 0.33\<rfloor>,
            img_cols = nat \<lfloor>real_of_int w * 0.6\<rfloor>,
            img_at = (\<lambda>r c. img_at frame (nat (y + \<lfloor>real_of_int h * 0.67\<rfloor>) + r)
                                          (nat (x + \<lfloor>real_of_int w * 0.2\<rfloor>) + c))\<rparr>
         \<and> y + \<lfloor>real_of_int h * 0.67\<rfloor> + \<lfloor>real_of_int h * 0.33\<rfloor> \<le> y + h
         \<and> x + \<lfloor>real_of_int w * 0.2\<rfloor> + \<lfloor>real_of_int w * 0.6\<rfloor> \<le> x + w"
proof -
  define a where "a = \<lfloor>of_int h * (0.67 :: real)\<rfloor>"
  define b where "b = \<lfloor>of_int h * (0.33 :: real)\<rfloor>"
  define c where "c = \<lfloor>of_int w * (0.2 :: real)\<rfloor>"
  define d where "d = \<lfloor>of_int w * (0.6 :: real)\<rfloor>"
  have a0: "0 \<le> a" and b0: "0 \<le> b" and ab: "a + b \<le> h"
    unfolding a_def b_def using floor_parts [OF assms(4), of "0.67" "0.33"] by simp_all
  have c0: "0 \<le> c" and d0: "0 \<le> d" and cd: "c + d \<le> w"
    unfolding c_def d_def using floor_parts [OF assms(3), of "0.2" "0.6"] by simp_all
  have pa: "py_int (of_int h * 0.67) = a" using assms(4) by (simp add: py_int_def a_def)
  have pb: "py_int (of_int h * 0.33) = b" using assms(4) by (simp add: py_int_def b_def)
  have pc: "py_int (of_int w * 0.2) = c" using assms(3) by (simp add: py_int_def c_def)
  have pd: "py_int (of_int w * 0.6) = d" using assms(3) by (simp add: py_int_def d_def)
  have r0: "slice_bound (img_rows frame) (y + a) = nat (y + a)"
    using assms(2,6) a0 b0 ab by (intro slice_bound_inside) linarith+
  have r1: "slice_bound (img_rows frame) (y + a + b) = nat (y + a + b)"
    using assms(2,6) a0 b0 ab by (intro slice_bound_inside) linarith+
  have c0': "slice_bound (img_cols frame) (x + c) = nat (x + c)"
    using assms(1,5) c0 d0 cd by (intro slice_bound_inside) linarith+
  have c1': "slice_bound (img_cols frame) (x + c + d) = nat (x + c + d)"
    using assms(1,5) c0 d0 cd by (intro slice_bound_inside) linarith+
  have rows: "nat (y + a + b) - nat (y + a) = nat b" using assms(2) a0 b0 by linarith
  have cols: "nat (x + c + d) - nat (x + c) = nat d" using assms(1) c0 d0 by linarith
  have "extract_lip_region frame (x, y, w, h) =
          \<lparr>img_rows = nat b, img_cols = nat d,
           img_at = (\<lambda>r c'. img_at frame (nat (y + a) + r) (nat (x + c) + c'))\<rparr>"
    by (simp only: extract_lip_region.simps pa pb pc pd Let_def slice2_def r0 r1 c0' c1' rows cols)
  then show ?thesis
    using ab cd unfolding a_def b_def c_def d_def by simp
qed

theorem extract_lip_region_inside_frame_witness:
  "(0 :: int) \<le> 2 \<and> (0 :: int) \<le> 10
   \<and> (2 :: int) + 10 \<le> int (img_cols example_frame) \<and> (2 :: int) + 10 \<le> int (img_rows example_frame)
   \<and> extract_lip_region example_frame (2, 2, 10, 10) =
        \<lparr>img_rows = 3, img_cols = 6, img_at = (\<lambda>r c. img_at example_frame (8 + r) (4 + c))\<rparr>"
proof -
  have h: "(2 :: int) + 10 \<le> int (img_cols example_frame)" "(2 :: int) + 10 \<le> int (img_rows example_frame)"
    by (simp_all add: example_frame_def)
  have z: "(0 :: int) \<le> 2" "(0 :: int) \<le> 10" by simp_all
  show ?thesis
    using extract_lip_region_inside_frame [OF z(1) z(1) z(2) z(2) h] h
    by (simp del: extract_lip_region.simps)
qed

text \<open>
  The region does not in general reach row \<open>y + h\<close>: for the box \<open>(2, 2, 10, 10)\<close> the
  source returns rows 8 to 10 (three rows), while \<open>frame[y+0.67h : y+h, ...]\<close> has the
  four rows 8 to 11.
\<close>

theorem extract_lip_region_not_to_box_end:
  "img_rows (extract_lip_region example_frame (2, 2, 10, 10)) = 3
   \<and> img_rows (spec_extractRegion example_frame (2, 2, 10, 10)) = 4
   \<and> extract_lip_region example_frame (2, 2, 10, 10)
        \<noteq> spec_extractRegion example_frame (2, 2, 10, 10)"
proof -
  have a: "img_rows (extract_lip_region example_frame (2, 2, 10, 10)) = 3"
    by (simp add: example_frame_def slice2_def slice_bound_def py_int_def Let_def)
  have b: "img_rows (spec_extractRegion example_frame (2, 2, 10, 10)) = 4"
    by (simp add: example_frame_def slice2_def slice_bound_def py_int_def Let_def)
  have "extract_lip_region example_frame (2, 2, 10, 10)
        \<noteq> spec_extractRegion example_frame (2, 2, 10, 10)"
  proof
    assume "extract_lip_region example_frame (2, 2, 10, 10)
              = spec_extractRegion example_frame (2, 2, 10, 10)"
    then have "img_rows (extract_lip_region example_frame (2, 2, 10, 10))
              = img_rows (spec_extractRegion example_frame (2, 2, 10, 10))" by (rule arg_cong)
    then show False using a b by simp
  qed
  with a b show ?thesis by blast
qed

text \<open>
  With a resize that rejects an image without pixels, the run over a frame whose
  detected box has height 3 ends in that error.
\<close>

lemma empty_region_rejected_example:
  "fst (generate_frames example_caps [[0, 10]] [example_frame]) = Inl (ExternalError ''resize'')"
proof -
  have d: "detect_face example_caps example_frame = Inr (Some (0, 0, 10, 3))"
    by (simp add: example_caps_def example_frame_def)
  have r: "img_rows (extract_lip_region example_frame (0, 0, 10, 3)) = 0"
    by (simp add: slice2_def py_int_def Let_def)
  have "cv2_resize example_caps (extract_lip_region example_frame (0, 0, 10, 3)) (64, 64)
          = Inl (ExternalError ''resize'')"
    using r by (simp add: example_caps_def del: extract_lip_region.simps)
  then show ?thesis
    using d by (simp add: generate_frames_def aligned_row_def Let_def del: extract_lip_region.simps)
qed

end
